theory Spec2Isabelle
  imports Main "HOL-Library.AList"
begin

section \<open>Python strings\<close>

text \<open>
  A Python \<open>str\<close> is modelled as a HOL \<open>string\<close> restricted to ASCII text: the character
  classes, case mapping and whitespace set below are the ASCII part of what Python's
  \<open>str\<close> methods and the \<open>re\<close> module use on \<open>str\<close> patterns.
\<close>

definition ascii_uppercase :: string where
  "ascii_uppercase = ''ABCDEFGHIJKLMNOPQRSTUVWXYZ''"

definition ascii_lowercase :: string where
  "ascii_lowercase = ''abcdefghijklmnopqrstuvwxyz''"

definition ascii_digits :: string where
  "ascii_digits = ''0123456789''"

text \<open>The ASCII characters for which \<open>str.isspace\<close> holds: TAB, LF, VT, FF, CR, FS, GS, RS, US, SPACE.\<close>

definition ascii_whitespace :: string where
  "ascii_whitespace =
     [CHR 0x09, CHR 0x0A, CHR 0x0B, CHR 0x0C, CHR 0x0D,
      CHR 0x1C, CHR 0x1D, CHR 0x1E, CHR 0x1F, CHR 0x20]"

definition is_upper_c :: "char \<Rightarrow> bool" where
  "is_upper_c c = (c \<in> set ascii_uppercase)"

definition is_lower_c :: "char \<Rightarrow> bool" where
  "is_lower_c c = (c \<in> set ascii_lowercase)"

definition is_digit_c :: "char \<Rightarrow> bool" where
  "is_digit_c c = (c \<in> set ascii_digits)"

definition is_space_c :: "char \<Rightarrow> bool" where
  "is_space_c c = (c \<in> set ascii_whitespace)"

text \<open>The class \<open>\w\<close>: letters, digits and the underscore.\<close>

definition is_word_c :: "char \<Rightarrow> bool" where
  "is_word_c c = (is_upper_c c \<or> is_lower_c c \<or> is_digit_c c \<or> c = CHR ''_'')"

definition lower_c :: "char \<Rightarrow> char" where
  "lower_c c = (case map_of (zip ascii_uppercase ascii_lowercase) c of Some l \<Rightarrow> l | None \<Rightarrow> c)"

text \<open>\<open>s.lower()\<close>\<close>

definition lower :: "string \<Rightarrow> string" where
  "lower s = map lower_c s"

text \<open>\<open>s.isupper()\<close>: at least one cased character, and no lowercase one.\<close>

definition isupper :: "string \<Rightarrow> bool" where
  "isupper s = (list_ex is_upper_c s \<and> \<not> list_ex is_lower_c s)"

text \<open>\<open>s.isdigit()\<close>: non-empty and digits only.\<close>

definition isdigit :: "string \<Rightarrow> bool" where
  "isdigit s = (s \<noteq> [] \<and> list_all is_digit_c s)"

text \<open>\<open>s.strip()\<close>\<close>

definition strip :: "string \<Rightarrow> string" where
  "strip s = rev (dropWhile is_space_c (rev (dropWhile is_space_c s)))"

text \<open>\<open>s.startswith(p)\<close>\<close>

fun startswith :: "string \<Rightarrow> string \<Rightarrow> bool" where
  "startswith s [] = True"
| "startswith [] (p # ps) = False"
| "startswith (c # cs) (p # ps) = (c = p \<and> startswith cs ps)"

text \<open>\<open>s.endswith(p)\<close>\<close>

definition endswith :: "string \<Rightarrow> string \<Rightarrow> bool" where
  "endswith s p = startswith (rev s) (rev p)"

text \<open>\<open>sub in s\<close>\<close>

fun py_in :: "string \<Rightarrow> string \<Rightarrow> bool" where
  "py_in sub [] = (sub = [])"
| "py_in sub (c # cs) = (startswith (c # cs) sub \<or> py_in sub cs)"

text \<open>\<open>s.find(sub)\<close>: the lowest index where \<open>sub\<close> starts, or \<open>-1\<close>.\<close>

fun find_from :: "nat \<Rightarrow> string \<Rightarrow> string \<Rightarrow> int" where
  "find_from i [] sub = (if sub = [] then int i else - 1)"
| "find_from i (c # cs) sub = (if startswith (c # cs) sub then int i else find_from (Suc i) cs sub)"

definition py_find :: "string \<Rightarrow> string \<Rightarrow> int" where
  "py_find s sub = find_from 0 s sub"

text \<open>
  \<open>s[a:b]\<close> for integer bounds: a negative bound counts from the end, and both bounds are
  clamped to the string.
\<close>

definition slice_bound :: "string \<Rightarrow> int \<Rightarrow> nat" where
  "slice_bound s i = (if i < 0 then nat (max 0 (i + int (length s))) else min (nat i) (length s))"

definition py_slice :: "string \<Rightarrow> int \<Rightarrow> int \<Rightarrow> string" where
  "py_slice s a b = take (slice_bound s b - slice_bound s a) (drop (slice_bound s a) s)"

text \<open>\<open>sep.join(xs)\<close>\<close>

fun join :: "string \<Rightarrow> string list \<Rightarrow> string" where
  "join sep [] = []"
| "join sep [x] = x"
| "join sep (x # y # ys) = x @ sep @ join sep (y # ys)"


section \<open>The regular expressions of the \<open>re\<close> module\<close>

text \<open>
  The patterns of the program use literals, character classes, greedy repetition of a
  character class, sequence, alternation, an optional part, one capturing group, the
  anchors \<open>^\<close> and \<open>$\<close> and the word boundary \<open>\b\<close>. A pattern is a term of type
  \<open>regex\<close>; \<open>re.escape(s)\<close> inside a pattern is the literal \<open>lit s\<close>.
\<close>

datatype cclass =
    Space               \<comment> \<open>\<open>\s\<close>\<close>
  | Digit               \<comment> \<open>\<open>\d\<close>\<close>
  | Upper               \<comment> \<open>\<open>[A-Z]\<close>\<close>
  | NotWord             \<comment> \<open>\<open>\W\<close>\<close>
  | OneOf string        \<comment> \<open>\<open>[...]\<close>\<close>
  | NoneOf string       \<comment> \<open>\<open>[^...]\<close>\<close>

datatype regex =
    Chr char            \<comment> \<open>a literal character\<close>
  | Cls cclass          \<comment> \<open>one character of a class\<close>
  | Star cclass         \<comment> \<open>greedy \<open>*\<close> on a class\<close>
  | Seq regex regex
  | Alt regex regex     \<comment> \<open>\<open>a|b\<close>\<close>
  | Opt regex           \<comment> \<open>greedy \<open>?\<close>\<close>
  | Grp regex           \<comment> \<open>the capturing group 1\<close>
  | Bol                 \<comment> \<open>\<open>^\<close>\<close>
  | Eol                 \<comment> \<open>\<open>$\<close>\<close>
  | Wb                  \<comment> \<open>\<open>\b\<close>\<close>
  | Eps

text \<open>The first argument of the matching functions is the flag \<open>re.IGNORECASE\<close>.\<close>

definition chr_eq :: "bool \<Rightarrow> char \<Rightarrow> char \<Rightarrow> bool" where
  "chr_eq ic c x = (if ic then lower_c c = lower_c x else c = x)"

fun in_class :: "bool \<Rightarrow> cclass \<Rightarrow> char \<Rightarrow> bool" where
  "in_class ic Space x = is_space_c x"
| "in_class ic Digit x = is_digit_c x"
| "in_class ic Upper x = (is_upper_c x \<or> (ic \<and> is_lower_c x))"
| "in_class ic NotWord x = (\<not> is_word_c x)"
| "in_class ic (OneOf cs) x = list_ex (\<lambda>c. chr_eq ic c x) cs"
| "in_class ic (NoneOf cs) x = (\<not> list_ex (\<lambda>c. chr_eq ic c x) cs)"

text \<open>
  A cursor is a position in the subject string: the index, the character before it (if
  any) and the characters from it on. A matcher state pairs a cursor with the capture of
  group 1: the index where the group started and the text it matched.
\<close>

type_synonym cursor = "nat \<times> char option \<times> string"
type_synonym mstate = "cursor \<times> (nat \<times> string) option"

definition is_word_before :: "char option \<Rightarrow> bool" where
  "is_word_before pv = (case pv of None \<Rightarrow> False | Some c \<Rightarrow> is_word_c c)"

definition is_word_after :: "string \<Rightarrow> bool" where
  "is_word_after r = (case r of [] \<Rightarrow> False | c # _ \<Rightarrow> is_word_c c)"

text \<open>The cursors a greedy repetition can stop at, the longest run first.\<close>

fun run :: "bool \<Rightarrow> cclass \<Rightarrow> cursor \<Rightarrow> cursor list" where
  "run ic k (p, pv, []) = [(p, pv, [])]"
| "run ic k (p, pv, x # xs) =
     (if in_class ic k x then run ic k (Suc p, Some x, xs) @ [(p, pv, x # xs)]
      else [(p, pv, x # xs)])"

text \<open>
  \<open>ms ic r st\<close> lists the states in which a match of \<open>r\<close> started in \<open>st\<close> can end, in
  the order in which the backtracking matcher of \<open>re\<close> tries them.
\<close>

fun ms :: "bool \<Rightarrow> regex \<Rightarrow> mstate \<Rightarrow> mstate list" where
  "ms ic (Chr c) ((p, pv, r), g) =
     (case r of [] \<Rightarrow> []
      | x # xs \<Rightarrow> if chr_eq ic c x then [((Suc p, Some x, xs), g)] else [])"
| "ms ic (Cls k) ((p, pv, r), g) =
     (case r of [] \<Rightarrow> []
      | x # xs \<Rightarrow> if in_class ic k x then [((Suc p, Some x, xs), g)] else [])"
| "ms ic (Star k) (cur, g) = map (\<lambda>c. (c, g)) (run ic k cur)"
| "ms ic (Seq a b) st = concat (map (ms ic b) (ms ic a st))"
| "ms ic (Alt a b) st = ms ic a st @ ms ic b st"
| "ms ic (Opt a) st = ms ic a st @ [st]"
| "ms ic (Grp a) ((p, pv, r), g) =
     map (\<lambda>((q, qv, r'), _). ((q, qv, r'), Some (p, take (q - p) r))) (ms ic a ((p, pv, r), g))"
| "ms ic Bol ((p, pv, r), g) = (if p = 0 then [((p, pv, r), g)] else [])"
| "ms ic Eol ((p, pv, r), g) = (if r = [] \<or> r = [CHR 0x0A] then [((p, pv, r), g)] else [])"
| "ms ic Wb ((p, pv, r), g) =
     (if is_word_before pv \<noteq> is_word_after r then [((p, pv, r), g)] else [])"
| "ms ic Eps st = [st]"

text \<open>A match object: \<open>m.start()\<close>, \<open>m.end()\<close>, and group 1 as \<open>(m.start(1), m.group(1))\<close>.\<close>

record rmatch =
  m_start :: nat
  m_end :: nat
  m_group1 :: "(nat \<times> string) option"

text \<open>\<open>re.search\<close> from a cursor on: the first start position with a match, and there the first match.\<close>

fun search_from :: "bool \<Rightarrow> regex \<Rightarrow> cursor \<Rightarrow> rmatch option" where
  "search_from ic r (p, pv, rs) =
     (case ms ic r ((p, pv, rs), None) of
        ((q, _, _), g) # _ \<Rightarrow> Some \<lparr>m_start = p, m_end = q, m_group1 = g\<rparr>
      | [] \<Rightarrow> (case rs of [] \<Rightarrow> None | c # cs \<Rightarrow> search_from ic r (Suc p, Some c, cs)))"

definition re_search :: "bool \<Rightarrow> regex \<Rightarrow> string \<Rightarrow> rmatch option" where
  "re_search ic r s = search_from ic r (0, None, s)"

text \<open>
  \<open>re.finditer\<close>: the matches from left to right, each search starting where the previous
  match ended. \<open>skip\<close> counts the characters still covered by the previous match. (After an
  empty match the scan moves on by one character; no pattern of the program matches the
  empty string.)
\<close>

fun finditer_from :: "bool \<Rightarrow> regex \<Rightarrow> nat \<Rightarrow> cursor \<Rightarrow> rmatch list" where
  "finditer_from ic r skip (p, pv, rs) =
     (if 0 < skip then
        (case rs of [] \<Rightarrow> [] | c # cs \<Rightarrow> finditer_from ic r (skip - 1) (Suc p, Some c, cs))
      else
        (case ms ic r ((p, pv, rs), None) of
           ((q, _, _), g) # _ \<Rightarrow>
             \<lparr>m_start = p, m_end = q, m_group1 = g\<rparr> #
               (case rs of [] \<Rightarrow> [] | c # cs \<Rightarrow> finditer_from ic r (q - p - 1) (Suc p, Some c, cs))
         | [] \<Rightarrow> (case rs of [] \<Rightarrow> [] | c # cs \<Rightarrow> finditer_from ic r 0 (Suc p, Some c, cs))))"

definition re_finditer :: "bool \<Rightarrow> regex \<Rightarrow> string \<Rightarrow> rmatch list" where
  "re_finditer ic r s = finditer_from ic r 0 (0, None, s)"

text \<open>Building patterns.\<close>

definition seqs :: "regex list \<Rightarrow> regex" where
  "seqs rs = foldr Seq rs Eps"

text \<open>A literal string, as \<open>re.escape\<close> produces it.\<close>

definition lit :: "string \<Rightarrow> regex" where
  "lit s = seqs (map Chr s)"

text \<open>Greedy \<open>+\<close> on a class.\<close>

definition plus :: "cclass \<Rightarrow> regex" where
  "plus k = Seq (Cls k) (Star k)"

text \<open>\<open>\d{4}\<close>\<close>

definition year4 :: regex where
  "year4 = seqs [Cls Digit, Cls Digit, Cls Digit, Cls Digit]"


section \<open>Errors\<close>

text \<open>
  The exceptions the program can raise on its data: an index out of range, a missing
  dictionary key or column, and a method call on a value that is not a string
  (\<open>None\<close>, a NaN cell, a number).
\<close>

datatype error = IndexError | KeyError | AttributeError

definition bind_e :: "error + 'a \<Rightarrow> ('a \<Rightarrow> error + 'b) \<Rightarrow> error + 'b" where
  "bind_e m f = (case m of Inl e \<Rightarrow> Inl e | Inr a \<Rightarrow> f a)"

text \<open>
  A loop \<open>for x in xs: if p(x): ...; break\<close> whose test can raise: the first element that
  passes the test, if any.
\<close>

fun first_hit :: "('a \<Rightarrow> error + bool) \<Rightarrow> 'a list \<Rightarrow> error + 'a option" where
  "first_hit p [] = Inr None"
| "first_hit p (x # xs) = bind_e (p x) (\<lambda>b. if b then Inr (Some x) else first_hit p xs)"

text \<open>\<open>m.group(1).strip()\<close>: group 1 of a match is \<open>None\<close> when the group took no part in it.\<close>

definition group1_strip :: "rmatch \<Rightarrow> error + string" where
  "group1_strip m = (case m_group1 m of None \<Rightarrow> Inl AttributeError | Some (_, t) \<Rightarrow> Inr (strip t))"

text \<open>\<open>m.span(1)[0]\<close>: \<open>-1\<close> when the group took no part in the match.\<close>

definition span1_start :: "rmatch \<Rightarrow> int" where
  "span1_start m = (case m_group1 m of None \<Rightarrow> - 1 | Some (s, _) \<Rightarrow> int s)"

text \<open>\<open>d[k]\<close>, \<open>k in d\<close> and \<open>d.get(k, default)\<close> on a dictionary kept in insertion order.\<close>

definition dict_item :: "('k \<times> 'v) list \<Rightarrow> 'k \<Rightarrow> error + 'v" where
  "dict_item d k = (case map_of d k of None \<Rightarrow> Inl KeyError | Some v \<Rightarrow> Inr v)"

definition dict_has :: "('k \<times> 'v) list \<Rightarrow> 'k \<Rightarrow> bool" where
  "dict_has d k = (map_of d k \<noteq> None)"

definition dict_get :: "('k \<times> 'v) list \<Rightarrow> 'k \<Rightarrow> 'v \<Rightarrow> 'v" where
  "dict_get d k dflt = (case map_of d k of None \<Rightarrow> dflt | Some v \<Rightarrow> v)"

text \<open>\<open>row.iloc[i]\<close>\<close>

definition iloc :: "'a list \<Rightarrow> nat \<Rightarrow> error + 'a" where
  "iloc row i = (if i < length row then Inr (row ! i) else Inl IndexError)"


section \<open>Exact matching of a publication name: \<open>is_exact_match\<close>\<close>

definition special_journals :: "string list" where
  "special_journals = [''Artificial Intelligence'', ''Neural Networks'', ''AI'']"

definition prefixes :: "string list" where
  "prefixes = [''Conference on'', ''Journal of'', ''Symposium on'', ''Workshop on'']"

definition conference_indicators :: "string list" where
  "conference_indicators =
     [''conference on'', ''symposium on'', ''workshop on'',
      ''international'', ''journal of'', ''transactions on'']"

text \<open>\<open>(?:^|\W)(NAME)(?:\W|$)\<close>\<close>

definition special_pattern :: "string \<Rightarrow> regex" where
  "special_pattern journal_name =
     seqs [Alt Bol (Cls NotWord), Grp (lit journal_name), Alt (Cls NotWord) Eol]"

text \<open>\<open>\bNAME\b\<close>\<close>

definition word_pattern :: "string \<Rightarrow> regex" where
  "word_pattern name = seqs [Wb, lit name, Wb]"

text \<open>\<open>NAME\s*\([A-Z]+\)\<close>\<close>

definition abbr_pattern :: "string \<Rightarrow> regex" where
  "abbr_pattern journal_name =
     seqs [lit journal_name, Star Space, Chr CHR ''('', plus Upper, Chr CHR '')'']"

text \<open>\<open>(?:the\s+)?\<close>\<close>

definition opt_the :: regex where
  "opt_the = Opt (Seq (lit ''the'') (plus Space))"

text \<open>
  The four status phrases, each followed by the captured group \<open>grp\<close>:
  \<open>[Aa]ccepted\s+(?:at|in|to|for)\s+(?:the\s+)?(...)\<close>,
  \<open>[Aa]ccepted\s+(?:by|for)\s+(?:the\s+)?(...)\<close>,
  \<open>[Pp]ublished\s+in\s+(?:the\s+)?(...)\<close>,
  \<open>[Tt]o\s+appear\s+in\s+(?:the\s+)?(...)\<close>.
\<close>

definition status_patterns :: "regex \<Rightarrow> regex list" where
  "status_patterns grp =
     [seqs [Cls (OneOf ''Aa''), lit ''ccepted'', plus Space,
            Alt (lit ''at'') (Alt (lit ''in'') (Alt (lit ''to'') (lit ''for''))),
            plus Space, opt_the, Grp grp],
      seqs [Cls (OneOf ''Aa''), lit ''ccepted'', plus Space,
            Alt (lit ''by'') (lit ''for''),
            plus Space, opt_the, Grp grp],
      seqs [Cls (OneOf ''Pp''), lit ''ublished'', plus Space, lit ''in'',
            plus Space, opt_the, Grp grp],
      seqs [Cls (OneOf ''Tt''), lit ''o'', plus Space, lit ''appear'', plus Space, lit ''in'',
            plus Space, opt_the, Grp grp]]"

text \<open>The group \<open>[^,.()]*NAME[^,.()]*\<close> of the patterns of \<open>is_exact_match\<close>.\<close>

definition accepted_patterns :: "string \<Rightarrow> regex list" where
  "accepted_patterns journal_name =
     status_patterns (seqs [Star (NoneOf '',.()''), lit journal_name, Star (NoneOf '',.()'')])"

text \<open>The special publications: a match of the pattern whose name is not preceded by a prefix.\<close>

definition special_match :: "string \<Rightarrow> string \<Rightarrow> bool" where
  "special_match text journal_name =
     (case re_search False (special_pattern journal_name) text of
        None \<Rightarrow> False
      | Some m \<Rightarrow>
          (let start = span1_start m in
           \<not> list_ex (\<lambda>prefix.
                endswith (strip (py_slice text (max 0 (start - int (length prefix) - 5)) start)) prefix)
              prefixes))"

text \<open>The test made for one pattern of \<open>accepted_patterns\<close>.\<close>

definition accepted_hit :: "string \<Rightarrow> string \<Rightarrow> regex \<Rightarrow> error + bool" where
  "accepted_hit text journal_name pattern =
     (case re_search False pattern text of
        None \<Rightarrow> Inr False
      | Some m \<Rightarrow>
          bind_e (group1_strip m) (\<lambda>matched_text.
            Inr (lower matched_text = lower journal_name \<or>
                 re_search True (word_pattern journal_name) matched_text \<noteq> None)))"

text \<open>The check of the text before a standalone occurrence of the name.\<close>

definition standalone_check :: "string \<Rightarrow> string \<Rightarrow> bool" where
  "standalone_check text journal_name =
     (let surrounding_text = lower text;
          journal_pos = py_find surrounding_text (lower journal_name)
      in \<not> list_ex (\<lambda>indicator.
              endswith (strip (py_slice surrounding_text (max 0 (journal_pos - 50)) journal_pos))
                indicator)
            conference_indicators)"

definition is_exact_match :: "string \<Rightarrow> string \<Rightarrow> error + bool" where
  "is_exact_match text journal_name =
     (if journal_name \<in> set special_journals then Inr (special_match text journal_name)
      else if py_in (lower journal_name) (lower text) then
        bind_e (first_hit (accepted_hit text journal_name) (accepted_patterns journal_name))
          (\<lambda>hit.
             if hit \<noteq> None then Inr True
             else if re_search True (abbr_pattern journal_name) text \<noteq> None then Inr True
             else if re_search True (word_pattern journal_name) text \<noteq> None
               then Inr (standalone_check text journal_name)
             else Inr False)
      else Inr False)"


section \<open>Candidate conference names: \<open>extract_conference_name\<close>\<close>

text \<open>\<open>[A-Z]{2,}\<close> and \<open>[A-Z]{3,}\<close>\<close>

definition upper2 :: regex where
  "upper2 = seqs [Cls Upper, Cls Upper, Star Upper]"

definition upper3 :: regex where
  "upper3 = seqs [Cls Upper, Cls Upper, Cls Upper, Star Upper]"

text \<open>
  The nine patterns, in the order of the source. In the sixth, the class \<open>[-\<dots>]\<close> of
  dashes is the hyphen, the only ASCII character in it.
\<close>

definition extract_patterns :: "regex list" where
  "extract_patterns =
     status_patterns (plus (NoneOf '',.()'')) @
     [seqs [Cls (OneOf ''Tt''), lit ''o'', plus Space, lit ''be'', plus Space, lit ''published'',
            plus Space, lit ''in'', plus Space, opt_the, Grp (plus (NoneOf '',.()''))],
      seqs [plus (NoneOf ''(''), Star Space, Chr CHR ''('',
            Grp (seqs [upper2,
                       Opt (seqs [Star Space, Opt (Cls (OneOf ''-'')), Star Space, Star Digit])]),
            Chr CHR '')''],
      seqs [Wb, Grp (seqs [upper3, Opt (seqs [Star Space, year4])]), Wb],
      seqs [Wb, Grp (seqs [upper2, year4]), Wb],
      seqs [Wb, Grp upper2, plus Space, year4, Wb]]"

text \<open>The names one pattern contributes, in the order of its matches.\<close>

fun collect_names :: "rmatch list \<Rightarrow> error + string list" where
  "collect_names [] = Inr []"
| "collect_names (m # ms') =
     bind_e (group1_strip m) (\<lambda>conf_name.
       bind_e (collect_names ms') (\<lambda>rest.
         Inr (if conf_name \<noteq> [] \<and> 2 < length conf_name \<and> \<not> isdigit conf_name
              then conf_name # rest else rest)))"

fun extract_with :: "regex list \<Rightarrow> string \<Rightarrow> error + string list" where
  "extract_with [] text = Inr []"
| "extract_with (pattern # ps) text =
     bind_e (collect_names (re_finditer False pattern text)) (\<lambda>names.
       bind_e (extract_with ps text) (\<lambda>rest. Inr (names @ rest)))"

definition extract_conference_name :: "string \<Rightarrow> error + string list" where
  "extract_conference_name text = extract_with extract_patterns text"

section \<open>The static conference tables\<close>

definition CONFERENCE_MAPPINGS :: "(string \<times> string) list" where
  "CONFERENCE_MAPPINGS =
     [(''IJCNN'', ''International Joint Conference on Neural Networks''),
      (''NAACL'', ''Annual Meeting of the North American Chapter of the Association for Computational Linguistics''),
      (''ACL'', ''Annual Meeting of the Association for Computational Linguistics''),
      (''ICCV'', ''International Conference on Computer Vision''),
      (''CVPR'', ''IEEE/CVF Conference on Computer Vision and Pattern Recognition''),
      (''EMNLP'', ''Conference on Empirical Methods in Natural Language Processing''),
      (''ICML'', ''International Conference on Machine Learning''),
      (''NeurIPS'', ''Annual Conference on Neural Information Processing Systems''),
      (''AICCSA'', ''ACS/IEEE International Conference on Computer Systems and Applications'')]"

definition ccf_a_conferences :: "string list" where
  "ccf_a_conferences =
     [''International Conference on Computer Vision'',
      ''IEEE/CVF Conference on Computer Vision and Pattern Recognition'',
      ''Annual Conference on Neural Information Processing Systems'',
      ''International Conference on Machine Learning'',
      ''Annual Meeting of the Association for Computational Linguistics'']"

definition ccf_b_conferences :: "string list" where
  "ccf_b_conferences =
     [''Conference on Empirical Methods in Natural Language Processing'',
      ''Annual Meeting of the North American Chapter of the Association for Computational Linguistics'']"

definition ccf_c_conferences :: "string list" where
  "ccf_c_conferences = [''International Joint Conference on Neural Networks'']"

text \<open>The level the loop over \<open>CONFERENCE_MAPPINGS.values()\<close> assigns to a conference name.\<close>

definition ccf_level :: "string \<Rightarrow> string" where
  "ccf_level conf_name =
     (if conf_name \<in> set ccf_a_conferences then ''A''
      else if conf_name \<in> set ccf_b_conferences then ''B''
      else if conf_name \<in> set ccf_c_conferences then ''C''
      else [])"

definition default_conference_types :: "(string \<times> string) list" where
  "default_conference_types =
     fold (\<lambda>conf_name d. AList.update conf_name ''Conference'' d) (map snd CONFERENCE_MAPPINGS) []"

definition default_conference_levels :: "(string \<times> string) list" where
  "default_conference_levels =
     fold (\<lambda>conf_name d. AList.update conf_name (ccf_level conf_name) d)
       (map snd CONFERENCE_MAPPINGS) []"


section \<open>The catalog built at the start of \<open>first_analysis\<close>\<close>

text \<open>
  The four dictionaries of \<open>first_analysis\<close>, each an association list in insertion order
  (assigning to a key that is present keeps its place, as in a Python \<open>dict\<close>).
\<close>

record catalog =
  journal_fullnames :: "(string \<times> string) list"
  journal_categories :: "(string \<times> string) list"
  journal_types :: "(string \<times> string) list"
  journal_levels :: "(string \<times> string) list"

definition empty_catalog :: catalog where
  "empty_catalog =
     \<lparr>journal_fullnames = [], journal_categories = [], journal_types = [], journal_levels = []\<rparr>"

text \<open>
  A cell of the reference sheet: a string, a missing value (NaN), or a value of another
  type, such as a number. A row maps column labels to cells.
\<close>

datatype cell = Str string | NaN | NonStr

type_synonym row = "(string \<times> cell) list"

text \<open>\<open>pd.isna(x)\<close> and \<open>x.strip()\<close> on a cell.\<close>

definition isna :: "cell \<Rightarrow> bool" where
  "isna c = (c = NaN)"

definition cell_strip :: "cell \<Rightarrow> error + string" where
  "cell_strip c =
     (case c of Str s \<Rightarrow> Inr (strip s) | NaN \<Rightarrow> Inl AttributeError | NonStr \<Rightarrow> Inl AttributeError)"

text \<open>
  \<open>row[col].strip() if col in row and not pd.isna(row[col])\<close>, and \<open>None\<close> where the
  condition fails.
\<close>

definition optional_field :: "row \<Rightarrow> string \<Rightarrow> error + string option" where
  "optional_field row col =
     (case map_of row col of
        None \<Rightarrow> Inr None
      | Some c \<Rightarrow> if isna c then Inr None else bind_e (cell_strip c) (\<lambda>s. Inr (Some s)))"

text \<open>The level kept for the stripped text of a level cell.\<close>

definition accepted_level :: "string option \<Rightarrow> string" where
  "accepted_level level_field =
     (case level_field of
        None \<Rightarrow> []
      | Some level \<Rightarrow> if level \<in> set [''A'', ''B'', ''C''] then level else [])"

text \<open>The body of the loop over the reference rows, for one row past the first.\<close>

definition index_row :: "row \<Rightarrow> catalog \<Rightarrow> error + catalog" where
  "index_row row cat =
     bind_e (bind_e (dict_item row ''Journal Name'') cell_strip) (\<lambda>short_name.
     bind_e (bind_e (dict_item row ''Full Name of the Journal'') cell_strip) (\<lambda>full_name.
     bind_e (optional_field row ''Type'') (\<lambda>type_field.
     bind_e (optional_field row ''Level'') (\<lambda>level_field.
       let journal_type = (case type_field of Some t \<Rightarrow> t | None \<Rightarrow> ''Unknown'');
           journal_level = accepted_level level_field
       in Inr \<lparr>journal_fullnames = AList.update short_name full_name (journal_fullnames cat),
               journal_categories = AList.update full_name full_name (journal_categories cat),
               journal_types = AList.update full_name journal_type (journal_types cat),
               journal_levels = AList.update full_name journal_level (journal_levels cat)\<rparr>))))"

fun index_rows :: "row list \<Rightarrow> catalog \<Rightarrow> error + catalog" where
  "index_rows [] cat = Inr cat"
| "index_rows (row # rows) cat = bind_e (index_row row cat) (index_rows rows)"

text \<open>The second argument of \<open>first_analysis\<close>: a data frame of reference rows, or a dictionary.\<close>

datatype publication_mapping = DataFrame "row list" | Dict "(string \<times> string) list"

definition index_mapping :: "publication_mapping \<Rightarrow> error + catalog" where
  "index_mapping pm =
     (case pm of
        DataFrame rows \<Rightarrow> index_rows (drop 1 rows) empty_catalog
      | Dict d \<Rightarrow>
          Inr \<lparr>journal_fullnames = d,
               journal_categories = fold (\<lambda>v c. AList.update v v c) (map snd d) [],
               journal_types = fold (\<lambda>v c. AList.update v ''Unknown'' c) (map snd d) [],
               journal_levels = fold (\<lambda>v c. AList.update v [] c) (map snd d) []\<rparr>)"

text \<open>The body of the loop that adds \<open>CONFERENCE_MAPPINGS\<close> to the catalog.\<close>

definition add_conference :: "string \<times> string \<Rightarrow> catalog \<Rightarrow> catalog" where
  "add_conference = (\<lambda>(abbr, fullname) cat.
     if \<not> dict_has (journal_categories cat) fullname then
       \<lparr>journal_fullnames =
          (if \<not> dict_has (journal_fullnames cat) abbr
           then AList.update abbr fullname (journal_fullnames cat)
           else journal_fullnames cat),
        journal_categories = AList.update fullname fullname (journal_categories cat),
        journal_types =
          AList.update fullname (dict_get default_conference_types fullname ''Conference'')
            (journal_types cat),
        journal_levels =
          AList.update fullname (dict_get default_conference_levels fullname [])
            (journal_levels cat)\<rparr>
     else cat)"

definition add_conferences :: "(string \<times> string) list \<Rightarrow> catalog \<Rightarrow> catalog" where
  "add_conferences table cat = fold add_conference table cat"

definition build_catalog :: "publication_mapping \<Rightarrow> error + catalog" where
  "build_catalog pm = bind_e (index_mapping pm) (\<lambda>cat. Inr (add_conferences CONFERENCE_MAPPINGS cat))"

section \<open>Matching one paper: the loop body of \<open>first_analysis\<close>\<close>

text \<open>The values the source writes to \<open>match_type\<close>.\<close>

datatype match_type =
    ExactFullName         \<comment> \<open>\<open>"Exact Full Name"\<close>\<close>
  | ExactShortName        \<comment> \<open>\<open>"Exact Short Name"\<close>\<close>
  | ShortNameWithYear     \<comment> \<open>\<open>"Short Name with Year"\<close>\<close>
  | ConferenceNameMatch   \<comment> \<open>\<open>"Conference Name Match"\<close>\<close>
  | ConferenceAbbrMatch   \<comment> \<open>\<open>"Conference Abbr Match"\<close>\<close>

text \<open>
  The variables \<open>matched\<close>, \<open>matched_publication\<close> and \<open>match_type\<close>: \<open>None\<close> while
  \<open>matched\<close> is false.
\<close>

type_synonym found = "(string \<times> match_type) option"

text \<open>Step 1: the first key of \<open>journal_categories\<close> that \<open>is_exact_match\<close> accepts.\<close>

definition match_full_name :: "catalog \<Rightarrow> string \<Rightarrow> error + found" where
  "match_full_name cat subject =
     bind_e (first_hit (is_exact_match subject) (map fst (journal_categories cat)))
       (\<lambda>hit. Inr (case hit of None \<Rightarrow> None | Some full_name \<Rightarrow> Some (full_name, ExactFullName)))"

text \<open>\<open>[({\[]?\bNAME\b[)}\]]?\<close> and \<open>\bNAME\d{4}\b\<close>\<close>

definition bracket_pattern :: "string \<Rightarrow> regex" where
  "bracket_pattern short_name =
     seqs [Opt (Cls (OneOf ''({['')), Wb, lit short_name, Wb, Opt (Cls (OneOf '')}]''))]"

definition year_pattern :: "string \<Rightarrow> regex" where
  "year_pattern short_name = seqs [Wb, lit short_name, year4, Wb]"

text \<open>Step 2: the loop over the items of \<open>journal_fullnames\<close>.\<close>

fun match_short_name :: "(string \<times> string) list \<Rightarrow> string \<Rightarrow> found" where
  "match_short_name [] subject = None"
| "match_short_name ((short_name, full_name) # items) subject =
     (if isupper short_name \<and> py_in short_name subject then
        if re_search False (bracket_pattern short_name) subject \<noteq> None
          then Some (full_name, ExactShortName)
        else if re_search False (year_pattern short_name) subject \<noteq> None
          then Some (full_name, ShortNameWithYear)
        else match_short_name items subject
      else match_short_name items subject)"

text \<open>Step 3, inner loop: the first abbreviation of the table that fits the candidate name.\<close>

fun match_abbr :: "(string \<times> string) list \<Rightarrow> string \<Rightarrow> found" where
  "match_abbr [] conf_name = None"
| "match_abbr ((abbr, full_name) # items) conf_name =
     (if re_search True (word_pattern abbr) conf_name \<noteq> None \<or>
         re_search True (year_pattern abbr) conf_name \<noteq> None \<or>
         startswith conf_name abbr
      then Some (full_name, ConferenceAbbrMatch)
      else match_abbr items conf_name)"

text \<open>Step 3, outer loop over the candidate names.\<close>

fun match_conf_names :: "string list \<Rightarrow> error + found" where
  "match_conf_names [] = Inr None"
| "match_conf_names (conf_name # names) =
     (if dict_has CONFERENCE_MAPPINGS conf_name then
        bind_e (dict_item CONFERENCE_MAPPINGS conf_name)
          (\<lambda>full_name. Inr (Some (full_name, ConferenceNameMatch)))
      else
        (case match_abbr CONFERENCE_MAPPINGS conf_name of
           Some hit \<Rightarrow> Inr (Some hit)
         | None \<Rightarrow> match_conf_names names))"

definition match_conference :: "string \<Rightarrow> error + found" where
  "match_conference subject = bind_e (extract_conference_name subject) match_conf_names"

text \<open>
  The three steps in sequence: step 2 runs under \<open>if not matched\<close>, and so does step 3.
\<close>

definition resolve :: "catalog \<Rightarrow> string \<Rightarrow> error + found" where
  "resolve cat subject =
     bind_e (match_full_name cat subject) (\<lambda>step1.
       let step2 = (if step1 = None then match_short_name (journal_fullnames cat) subject
                    else step1)
       in if step2 = None then match_conference subject else Inr step2)"

text \<open>One entry of \<open>matches\<close>.\<close>

record match_record =
  Title :: string
  Subject :: string
  URL :: string
  Publication :: string
  Publication_Type :: string
  Publication_Level :: string
  Match_Type :: match_type

text \<open>
  A row of the paper sheet is the list of its cells, each given by the string \<open>str\<close>
  makes of it. \<open>str(row.iloc[i]) if len(row) > i else ""\<close>:
\<close>

definition cell_or_empty :: "string list \<Rightarrow> nat \<Rightarrow> error + string" where
  "cell_or_empty row i = (if i < length row then iloc row i else Inr [])"

definition analyse_row :: "catalog \<Rightarrow> string list \<Rightarrow> error + match_record option" where
  "analyse_row cat row =
     bind_e (cell_or_empty row 0) (\<lambda>title.
     bind_e (cell_or_empty row 2) (\<lambda>subject.
     bind_e (cell_or_empty row 3) (\<lambda>url.
       if py_in ''Comments'' subject then
         bind_e (resolve cat subject) (\<lambda>res.
           case res of
             None \<Rightarrow> Inr None
           | Some (matched_publication, match_type) \<Rightarrow>
               Inr (Some \<lparr>Title = title, Subject = subject, URL = url,
                          Publication = matched_publication,
                          Publication_Type = dict_get (journal_types cat) matched_publication ''Unknown'',
                          Publication_Level = dict_get (journal_levels cat) matched_publication [],
                          Match_Type = match_type\<rparr>))
       else Inr None)))"

fun analyse_rows :: "catalog \<Rightarrow> string list list \<Rightarrow> error + match_record list" where
  "analyse_rows cat [] = Inr []"
| "analyse_rows cat (row # rows) =
     bind_e (analyse_row cat row) (\<lambda>m.
       bind_e (analyse_rows cat rows) (\<lambda>matches.
         Inr (case m of None \<Rightarrow> matches | Some r \<Rightarrow> r # matches)))"

definition first_analysis :: "string list list \<Rightarrow> publication_mapping \<Rightarrow> error + match_record list" where
  "first_analysis df pm = bind_e (build_catalog pm) (\<lambda>cat. analyse_rows cat df)"


section \<open>Keyword hits: \<open>second_analysis\<close>\<close>

record scored_record = match_record +
  Keywords_Hit :: string

text \<open>The list \<open>hits\<close>: the keywords found in the title by \<open>\bKEYWORD\b\<close>, ignoring case.\<close>

definition keyword_hits :: "string \<Rightarrow> string list \<Rightarrow> string list" where
  "keyword_hits title keyword_list =
     filter (\<lambda>keyword. re_search True (word_pattern keyword) title \<noteq> None) keyword_list"

text \<open>The loop body: the hits of a row, or \<open>[]\<close> when the publication has no keywords.\<close>

definition row_hits :: "(string \<times> string list) list \<Rightarrow> match_record \<Rightarrow> error + string list" where
  "row_hits keywords row =
     (let pub = Publication row in
      if dict_has keywords pub then
        bind_e (dict_item keywords pub) (\<lambda>keyword_list. Inr (keyword_hits (Title row) keyword_list))
      else Inr [])"

text \<open>The column \<open>Keywords_Hit\<close> starts empty and receives the joined hits when there are any.\<close>

definition score_row :: "(string \<times> string list) list \<Rightarrow> match_record \<Rightarrow> error + scored_record" where
  "score_row keywords row =
     bind_e (row_hits keywords row) (\<lambda>hits.
       Inr (match_record.extend row
              \<lparr>Keywords_Hit = (if hits \<noteq> [] then join '', '' hits else [])\<rparr>))"

fun second_analysis :: "match_record list \<Rightarrow> (string \<times> string list) list \<Rightarrow> error + scored_record list" where
  "second_analysis [] keywords = Inr []"
| "second_analysis (row # rows) keywords =
     bind_e (score_row keywords row) (\<lambda>r.
       bind_e (second_analysis rows keywords) (\<lambda>rs. Inr (r # rs)))"


section \<open>The catalog of the static table alone\<close>

text \<open>The catalog \<open>first_analysis\<close> builds when the reference sheet has no row past the first.\<close>

definition static_catalog :: catalog where
  "static_catalog = add_conferences CONFERENCE_MAPPINGS empty_catalog"


section \<open>Facts about the string functions\<close>

lemma startswith_iff: "startswith s p \<longleftrightarrow> (\<exists>post. s = p @ post)"
  by (induction s p rule: startswith.induct) auto

lemma py_in_iff: "py_in sub s \<longleftrightarrow> (\<exists>pre post. s = pre @ sub @ post)"
proof (induction s)
  case Nil
  then show ?case by auto
next
  case (Cons c cs)
  show ?case
  proof
    assume "py_in sub (c # cs)"
    then consider "startswith (c # cs) sub" | "py_in sub cs" by auto
    then show "\<exists>pre post. c # cs = pre @ sub @ post"
    proof cases
      case 1
      then obtain post where "c # cs = sub @ post" by (auto simp: startswith_iff)
      then have "c # cs = [] @ sub @ post" by simp
      then show ?thesis by blast
    next
      case 2
      then obtain pre post where "cs = pre @ sub @ post" using Cons.IH by auto
      then have "c # cs = (c # pre) @ sub @ post" by simp
      then show ?thesis by blast
    qed
  next
    assume "\<exists>pre post. c # cs = pre @ sub @ post"
    then obtain pre post where e: "c # cs = pre @ sub @ post" by auto
    show "py_in sub (c # cs)"
    proof (cases pre)
      case Nil
      with e have "startswith (c # cs) sub" by (auto simp: startswith_iff)
      then show ?thesis by simp
    next
      case (Cons a pre')
      with e have "cs = pre' @ sub @ post" by simp
      then have "py_in sub cs" using Cons.IH by blast
      then show ?thesis by simp
    qed
  qed
qed


section \<open>Facts about the error results\<close>

lemma bind_e_Inr [simp]: "bind_e (Inr a) f = f a"
  by (simp add: bind_e_def)

lemma bind_e_Inl [simp]: "bind_e (Inl e) f = Inl e"
  by (simp add: bind_e_def)

lemma cell_or_empty_total: "\<exists>s. cell_or_empty row i = Inr s"
  by (simp add: cell_or_empty_def iloc_def)


section \<open>Papers without the word Comments\<close>

text \<open>
  Claim C2. A paper row whose subject cell (the third cell, or the empty string when the
  row is shorter) does not contain the substring \<open>Comments\<close> gives no match record and no
  error, whatever the catalog holds, and adds nothing to the list of matches.
\<close>

theorem not_eligible_excluded:
  assumes "cell_or_empty row 2 = Inr subject"
    and "\<not> (\<exists>pre post. subject = pre @ ''Comments'' @ post)"
  shows "analyse_row cat row = Inr None \<and> analyse_rows cat (row # rows) = analyse_rows cat rows"
proof -
  have n: "\<not> py_in ''Comments'' subject" using assms(2) by (simp add: py_in_iff)
  obtain t where t: "cell_or_empty row 0 = Inr t" using cell_or_empty_total by blast
  obtain u where u: "cell_or_empty row 3 = Inr u" using cell_or_empty_total by blast
  have a: "analyse_row cat row = Inr None"
    using n t u assms(1) by (simp add: analyse_row_def)
  have "analyse_rows cat (row # rows) = analyse_rows cat rows"
    by (cases "analyse_rows cat rows") (simp_all add: a)
  with a show ?thesis by simp
qed

theorem not_eligible_excluded_witness:
  "cell_or_empty [''A title'', ''cs.CV'', ''To appear at CVPR2025'', ''http://x''] 2
     = Inr ''To appear at CVPR2025''
   \<and> \<not> (\<exists>pre post. ''To appear at CVPR2025'' = pre @ ''Comments'' @ post)
   \<and> analyse_row empty_catalog [''A title'', ''cs.CV'', ''To appear at CVPR2025'', ''http://x'']
     = Inr None"
proof -
  have h1: "cell_or_empty [''A title'', ''cs.CV'', ''To appear at CVPR2025'', ''http://x''] 2
              = Inr ''To appear at CVPR2025''"
    by (simp add: cell_or_empty_def iloc_def)
  have h2: "\<not> (\<exists>pre post. ''To appear at CVPR2025'' = pre @ ''Comments'' @ post)"
    unfolding py_in_iff [symmetric] by simp
  show ?thesis using h1 h2 not_eligible_excluded [OF h1 h2, of empty_catalog "[]"] by blast
qed

section \<open>Facts about the static catalog\<close>

lemma static_catalog_eq:
  "static_catalog =
     \<lparr>journal_fullnames = CONFERENCE_MAPPINGS,
      journal_categories = map (\<lambda>(a, n). (n, n)) CONFERENCE_MAPPINGS,
      journal_types = map (\<lambda>(a, n). (n, ''Conference'')) CONFERENCE_MAPPINGS,
      journal_levels =
        zip (map snd CONFERENCE_MAPPINGS) [''C'', ''B'', ''A'', ''A'', ''A'', ''B'', ''A'', ''A'', []]\<rparr>"
  by code_simp

lemma static_fullnames: "journal_fullnames static_catalog = CONFERENCE_MAPPINGS"
  by (simp add: static_catalog_eq)


section \<open>The abbreviation step is case-sensitive\<close>

lemma match_short_name_Some:
  "match_short_name items subject = Some (full_name, mt) \<Longrightarrow>
     \<exists>short_name. (short_name, full_name) \<in> set items \<and> isupper short_name \<and>
       py_in short_name subject \<and> (mt = ExactShortName \<or> mt = ShortNameWithYear)"
  by (induction items subject rule: match_short_name.induct) (auto split: if_splits)

lemma match_short_name_None:
  "\<forall>(short_name, full_name) \<in> set items. \<not> py_in short_name subject \<Longrightarrow>
     match_short_name items subject = None"
  by (induction items subject rule: match_short_name.induct) auto

text \<open>
  Claim C9. A match of step 2 comes from a short name of the catalog that is upper case
  and occurs in the subject as a substring, character for character, and its match type is
  ExactShortName or ShortNameWithYear. So when no short name of the catalog occurs in the
  subject with its own casing, step 2 finds nothing.
\<close>

theorem short_name_case_sensitive:
  "(match_short_name items subject = Some (full_name, mt) \<longrightarrow>
      (\<exists>short_name. (short_name, full_name) \<in> set items \<and> isupper short_name \<and>
         (\<exists>pre post. subject = pre @ short_name @ post) \<and>
         (mt = ExactShortName \<or> mt = ShortNameWithYear)))
   \<and> ((\<forall>(short_name, full_name) \<in> set items. \<not> (\<exists>pre post. subject = pre @ short_name @ post)) \<longrightarrow>
        match_short_name items subject = None)"
  using match_short_name_Some [of items subject full_name mt] match_short_name_None [of items subject]
  unfolding py_in_iff by blast

theorem short_name_case_sensitive_witness:
  "match_short_name (journal_fullnames static_catalog) ''Comments: cvpr 2025'' = None
   \<and> match_short_name (journal_fullnames static_catalog) ''Comments: To appear at CVPR2025''
       = Some (''IEEE/CVF Conference on Computer Vision and Pattern Recognition'', ShortNameWithYear)
   \<and> (\<exists>short_name.
         (short_name, ''IEEE/CVF Conference on Computer Vision and Pattern Recognition'')
           \<in> set (journal_fullnames static_catalog) \<and>
         isupper short_name \<and>
         (\<exists>pre post. ''Comments: To appear at CVPR2025'' = pre @ short_name @ post))"
proof -
  let ?items = "journal_fullnames static_catalog"
  have h: "\<forall>(short_name, full_name) \<in> set ?items.
             \<not> (\<exists>pre post. ''Comments: cvpr 2025'' = pre @ short_name @ post)"
    unfolding py_in_iff [symmetric] static_fullnames by (simp add: CONFERENCE_MAPPINGS_def)
  have a: "match_short_name ?items ''Comments: cvpr 2025'' = None"
    using h short_name_case_sensitive [of ?items "''Comments: cvpr 2025''"] by blast
  have m: "match_short_name ?items ''Comments: To appear at CVPR2025''
       = Some (''IEEE/CVF Conference on Computer Vision and Pattern Recognition'', ShortNameWithYear)"
    unfolding static_fullnames by code_simp
  have e: "\<exists>short_name.
      (short_name, ''IEEE/CVF Conference on Computer Vision and Pattern Recognition'') \<in> set ?items \<and>
      isupper short_name \<and>
      (\<exists>pre post. ''Comments: To appear at CVPR2025'' = pre @ short_name @ post)"
    using m short_name_case_sensitive [of ?items "''Comments: To appear at CVPR2025''"
        "''IEEE/CVF Conference on Computer Vision and Pattern Recognition''" ShortNameWithYear]
    by blast
  from a m e show ?thesis by blast
qed

end
